theory Spec2Isabelle
  imports Main
begin

section \<open>Values exchanged with the job queue\<close>

text \<open>
  The controller of \<^verbatim>\<open>lib/jobs.js\<close> is written in continuation-passing style over four
  collaborators: the connection pool (\<^verbatim>\<open>pg.connect\<close>), the jobs model
  (\<^verbatim>\<open>require('../models/jobs')\<close>), \<^verbatim>\<open>pg-transaction\<close> and \<^verbatim>\<open>async.whilst\<close>.
  The embedding runs one callback chain at a time, as the single-threaded event loop does,
  and threads a \<open>world\<close> through it: the module variable, the job table, the pool and an
  ordered trace of everything the controller asked for or announced.
\<close>

type_synonym job_id = nat

text \<open>Every failure is a JavaScript \<^verbatim>\<open>Error\<close> carrying a message.\<close>

datatype error = Error string

text \<open>The only error the controller builds itself: \<^verbatim>\<open>new Error('Could not locate job')\<close>.\<close>

definition could_not_locate_job :: error where
  "could_not_locate_job = Error ''Could not locate job''"

text \<open>The \<^verbatim>\<open>processIn\<close> argument: omitted, \<^verbatim>\<open>null\<close>, or a number of milliseconds.\<close>

datatype delay = Undefined | Null | Ms int

record job =
  job_id :: job_id
  data :: string
  due_at :: "int option"
  processed_at :: "int option"

record options =
  db :: string
  pollInterval :: "int option"

text \<open>
  The object returned by the exported factory: the closure over \<^verbatim>\<open>options\<close> and the
  instance's own \<^verbatim>\<open>new events.EventEmitter()\<close>, identified by a number.
\<close>

record jobs =
  opts :: options
  eventEmitter :: nat

datatype action =
    Connect
  | ReleaseClient
  | Emit nat string
  | QueryNext int
  | ObtainLock job_id
  | GetData job_id
  | Unlock job_id
  | SetProcessedNow job_id
  | Write "job_id option" delay string
  | TxBegin
  | TxCommit "error option"
  | TxRollback "error option"
  | UserFn job_id
  | SetTimeout int
  | Created "error option" "job_id option"
  | Done "error option"

text \<open>
  Actions are recorded in the order in which they happen; a query for the next job carries
  the time at which it is sent. \<open>shouldStillProcess\<close> is the variable declared in the module's top \<^verbatim>\<open>var\<close> list, outside
  the exported factory; \<open>None\<close> is JavaScript's \<^verbatim>\<open>undefined\<close>, its value before the first
  assignment.
\<close>

record world =
  shouldStillProcess :: "bool option"
  emitters :: nat
  store :: "job list"
  tx_saved :: "job list option"
  locks :: "job_id list"
  clients_out :: nat
  clock :: int
  trace :: "action list"

text \<open>
  What the user's processing function does with one job: the arguments it hands to
  \<^verbatim>\<open>processingComplete(err, newJobData, processIn)\<close>, which it must call exactly once, and
  whether \<^verbatim>\<open>stopProcessing()\<close> was called while the job was being worked on. The error
  argument is read as the test \<^verbatim>\<open>if (err)\<close> reads it: \<open>Some\<close> for an \<^verbatim>\<open>Error\<close> object,
  which is truthy, \<open>None\<close> for \<^verbatim>\<open>null\<close> and \<^verbatim>\<open>undefined\<close>.
\<close>

record reply =
  cb_err :: "error option"
  cb_newJobData :: string
  cb_processIn :: delay
  calls_stopProcessing :: bool

type_synonym process_fn = "job_id \<Rightarrow> string \<Rightarrow> reply"

text \<open>
  The environment decides which requests to the database fail, and how late a timer fires.
\<close>

record env =
  connect_fault :: "error option"
  next_fault :: "int \<Rightarrow> error option"
  lock_fault :: "job_id \<Rightarrow> error option"
  getdata_fault :: "job_id \<Rightarrow> error option"
  stamp_fault :: "job_id \<Rightarrow> error option"
  write_fault :: "job_id option \<Rightarrow> error option"
  commit_fault :: "error option"
  rollback_fault :: "error option"
  timer_late :: nat

definition log :: "action \<Rightarrow> world \<Rightarrow> world" where
  "log a w = w\<lparr>trace := trace w @ [a]\<rparr>"

section \<open>The collaborators\<close>

subsection \<open>Connection pool, timers, transactions\<close>

text \<open>
  \<^verbatim>\<open>pg.connect(uri, cb)\<close> calls back with \<^verbatim>\<open>(err, client, release)\<close>; a client is checked
  out only when there is no error, and releasing when none is checked out does nothing.
\<close>

definition pg_connect :: "env \<Rightarrow> world \<Rightarrow> error option \<times> world" where
  "pg_connect ev w =
     (let w1 = log Connect w in
      case connect_fault ev of
        Some e \<Rightarrow> (Some e, w1)
      | None \<Rightarrow> (None, w1\<lparr>clients_out := Suc (clients_out w1)\<rparr>))"

definition releaseClient :: "world \<Rightarrow> world" where
  "releaseClient w = log ReleaseClient (w\<lparr>clients_out := clients_out w - 1\<rparr>)"

text \<open>
  \<^verbatim>\<open>setTimeout(callback, ms)\<close>: Node's timer takes a delay below 1 or above 2147483647
  as 1; the callback runs no earlier than the delay so taken, with no argument.
\<close>

definition timer_delay :: "int \<Rightarrow> int" where
  "timer_delay ms = (if ms < 1 \<or> 2147483647 < ms then 1 else ms)"

definition setTimeout :: "env \<Rightarrow> int \<Rightarrow> world \<Rightarrow> world" where
  "setTimeout ev ms w =
     (log (SetTimeout ms) w)\<lparr>clock := clock w + timer_delay ms + int (timer_late ev)\<rparr>"

text \<open>
  \<^verbatim>\<open>pg-transaction\<close>: \<^verbatim>\<open>begin\<close> opens a transaction on the client, \<^verbatim>\<open>commit\<close> makes its
  writes durable, \<^verbatim>\<open>rollback\<close> discards them. A commit that fails leaves nothing durable.
\<close>

definition tx_begin :: "world \<Rightarrow> world" where
  "tx_begin w = log TxBegin (w\<lparr>tx_saved := Some (store w)\<rparr>)"

definition restore :: "world \<Rightarrow> world" where
  "restore w =
     w\<lparr>store := (case tx_saved w of Some s \<Rightarrow> s | None \<Rightarrow> store w), tx_saved := None\<rparr>"

definition tx_commit :: "env \<Rightarrow> world \<Rightarrow> world" where
  "tx_commit ev w =
     log (TxCommit (commit_fault ev))
       (case commit_fault ev of
          None \<Rightarrow> w\<lparr>tx_saved := None\<rparr>
        | Some e \<Rightarrow> restore w)"

definition tx_rollback :: "env \<Rightarrow> world \<Rightarrow> world" where
  "tx_rollback ev w = log (TxRollback (rollback_fault ev)) (restore w)"

subsection \<open>The jobs model\<close>

text \<open>
  Modelled from the spec: \<^verbatim>\<open>models/jobs.js\<close> (the Store) is not among the sources. The
  definitions of this subsection follow the Store contract of the specification's section on
  external interfaces: \<open>write\<close> (here \<open>write_job\<close>) inserts when the id is null and updates in
  place otherwise,
  computing \<open>due_at\<close> from the delay (null means inactive); \<open>nextToProcess\<close> selects one
  due job that is not locked, or none; \<open>obtainLock\<close> locks one job or fails;
  \<open>unlock\<close> releases such a lock; \<open>getDataForJob\<close> returns the job's snapshot;
  \<open>setProcessedNow\<close> stamps the completion time. Which error a failing request reports is
  the Store's business and comes from the environment.
\<close>

definition due_from :: "int \<Rightarrow> delay \<Rightarrow> int option" where
  "due_from now d = (case d of Ms n \<Rightarrow> Some (now + n) | Null \<Rightarrow> None | Undefined \<Rightarrow> None)"

definition is_due :: "int \<Rightarrow> job \<Rightarrow> bool" where
  "is_due now j = (case due_at j of None \<Rightarrow> False | Some t \<Rightarrow> t \<le> now)"

definition lookup :: "job_id \<Rightarrow> job list \<Rightarrow> job option" where
  "lookup i js = find (\<lambda>j. job_id j = i) js"

definition fresh_id :: "job list \<Rightarrow> job_id" where
  "fresh_id js = Suc (fold max (map job_id js) 0)"

definition rewrite :: "job_id \<Rightarrow> (job \<Rightarrow> job) \<Rightarrow> job list \<Rightarrow> job list" where
  "rewrite i f js = map (\<lambda>j. if job_id j = i then f j else j) js"

definition write_job ::
  "env \<Rightarrow> job_id option \<Rightarrow> delay \<Rightarrow> string \<Rightarrow> world \<Rightarrow> (error + job_id) \<times> world" where
  "write_job ev jobId processIn jobData w =
     (let w1 = log (Write jobId processIn jobData) w in
      case write_fault ev jobId of
        Some e \<Rightarrow> (Inl e, w1)
      | None \<Rightarrow>
          (case jobId of
             None \<Rightarrow>
               (let i = fresh_id (store w1) in
                (Inr i, w1\<lparr>store := store w1 @
                   [\<lparr>job_id = i, data = jobData,
                     due_at = due_from (clock w1) processIn, processed_at = None\<rparr>]\<rparr>))
           | Some i \<Rightarrow>
               (Inr i, w1\<lparr>store := rewrite i
                   (\<lambda>j. j\<lparr>data := jobData, due_at := due_from (clock w1) processIn\<rparr>)
                   (store w1)\<rparr>)))"

definition setProcessedNow :: "env \<Rightarrow> job_id \<Rightarrow> world \<Rightarrow> error option \<times> world" where
  "setProcessedNow ev i w =
     (let w1 = log (SetProcessedNow i) w in
      case stamp_fault ev i of
        Some e \<Rightarrow> (Some e, w1)
      | None \<Rightarrow>
          (None, w1\<lparr>store := rewrite i (\<lambda>j. j\<lparr>processed_at := Some (clock w1)\<rparr>) (store w1)\<rparr>))"

definition nextToProcess :: "env \<Rightarrow> world \<Rightarrow> (error option \<times> job option) \<times> world" where
  "nextToProcess ev w =
     (let w1 = log (QueryNext (clock w)) w in
      case next_fault ev (clock w) of
        Some e \<Rightarrow> ((Some e, None), w1)
      | None \<Rightarrow>
          ((None, find (\<lambda>j. is_due (clock w) j \<and> job_id j \<notin> set (locks w)) (store w)),
           w1))"

definition obtainLock :: "env \<Rightarrow> job_id \<Rightarrow> world \<Rightarrow> error option \<times> world" where
  "obtainLock ev i w =
     (let w1 = log (ObtainLock i) w in
      case lock_fault ev i of
        Some e \<Rightarrow> (Some e, w1)
      | None \<Rightarrow> (None, w1\<lparr>locks := i # locks w1\<rparr>))"

definition unlock :: "job_id \<Rightarrow> world \<Rightarrow> world" where
  "unlock i w = log (Unlock i) (w\<lparr>locks := removeAll i (locks w)\<rparr>)"

definition getDataForJob ::
  "env \<Rightarrow> job_id \<Rightarrow> world \<Rightarrow> (error option \<times> job option) \<times> world" where
  "getDataForJob ev i w =
     (let w1 = log (GetData i) w in
      case getdata_fault ev i of
        Some e \<Rightarrow> ((Some e, None), w1)
      | None \<Rightarrow> ((None, lookup i (store w)), w1))"

subsection \<open>The \<open>async\<close> library's loop\<close>

text \<open>
  \<^verbatim>\<open>async.whilst(test, fn, callback)\<close>: \<open>test\<close> is evaluated synchronously before each
  round; a truthy result runs \<open>fn\<close>, whose callback either ends the loop with its error or
  starts the next round; a falsy result ends the loop with no error. The loop has no bound
  of its own, so the model counts rounds down from a budget and answers \<open>None\<close> when the
  budget is used up before the loop has ended.
\<close>

fun whilst ::
  "nat \<Rightarrow> (world \<Rightarrow> bool option) \<Rightarrow> (world \<Rightarrow> error option \<times> world) \<Rightarrow>
   (error option \<Rightarrow> world \<Rightarrow> world) \<Rightarrow> world \<Rightarrow> world option" where
  "whilst 0 test iterator callback w = None"
| "whilst (Suc n) test iterator callback w =
     (if test w = Some True then
        (case iterator w of
           (Some e, w') \<Rightarrow> Some (callback (Some e) w')
         | (None, w') \<Rightarrow> whilst n test iterator callback w')
      else Some (callback None w))"

section \<open>The controller: \<^verbatim>\<open>lib/jobs.js\<close>\<close>

text \<open>\<^verbatim>\<open>module.exports = function(options) { ... return Jobs; }\<close>\<close>

definition module_exports :: "options \<Rightarrow> world \<Rightarrow> jobs \<times> world" where
  "module_exports options w =
     (\<lparr>opts = options, eventEmitter = emitters w\<rparr>, w\<lparr>emitters := Suc (emitters w)\<rparr>)"

definition emit :: "jobs \<Rightarrow> string \<Rightarrow> world \<Rightarrow> world" where
  "emit J name w = log (Emit (eventEmitter J) name) w"

text \<open>The caller's \<^verbatim>\<open>done\<close> callback, recorded with the error it receives.\<close>

definition done_cb :: "error option \<Rightarrow> world \<Rightarrow> world" where
  "done_cb err w = log (Done err) w"

text \<open>
  \<open>create\<close>: \<open>complete\<close> is the callback of the write and also what a failed connection
  attempt is answered with; it returns the client and then calls \<^verbatim>\<open>done(err, jobId)\<close>.
\<close>

definition complete :: "error option \<Rightarrow> job_id option \<Rightarrow> world \<Rightarrow> world" where
  "complete err jobId w = log (Created err jobId) (releaseClient w)"

definition create :: "jobs \<Rightarrow> env \<Rightarrow> string \<Rightarrow> delay \<Rightarrow> world \<Rightarrow> world" where
  "create J ev jobData processIn w =
     (case pg_connect ev w of
        (Some e, w1) \<Rightarrow> complete (Some e) None w1
      | (None, w1) \<Rightarrow>
          (case write_job ev None processIn jobData w1 of
             (Inl e, w2) \<Rightarrow> complete (Some e) None w2
           | (Inr i, w2) \<Rightarrow> complete None (Some i) w2))"

definition updateJob ::
  "jobs \<Rightarrow> env \<Rightarrow> job \<Rightarrow> string \<Rightarrow> delay \<Rightarrow> world \<Rightarrow> error option \<times> world" where
  "updateJob J ev jobSnapshot newJobData processIn w =
     (let processIn' = (if processIn = Undefined then Null else processIn) in
      case write_job ev (Some (job_id jobSnapshot)) processIn' newJobData w of
        (Inl e, w1) \<Rightarrow> (Some e, w1)
      | (Inr _, w1) \<Rightarrow> (None, emit J ''jobUpdated'' w1))"

definition stopProcessing :: "jobs \<Rightarrow> world \<Rightarrow> world" where
  "stopProcessing J w = w\<lparr>shouldStillProcess := Some False\<rparr>"

definition continueProcessing :: "jobs \<Rightarrow> world \<Rightarrow> bool option" where
  "continueProcessing J w = shouldStillProcess w"

text \<open>
  \<open>serviceJob\<close> hands the job to the user's function; \<open>processingComplete\<close> is the
  continuation. \<^verbatim>\<open>setProcessedNow\<close> is called with no callback, so its outcome is dropped.
\<close>

definition serviceJob ::
  "jobs \<Rightarrow> env \<Rightarrow> job \<Rightarrow> process_fn \<Rightarrow> world \<Rightarrow> error option \<times> world" where
  "serviceJob J ev jobContainer userJobIterator w =
     (let r = userJobIterator (job_id jobContainer) (data jobContainer);
          w1 = log (UserFn (job_id jobContainer)) w;
          w2 = (if calls_stopProcessing r then stopProcessing J w1 else w1)
      in case cb_err r of
           Some e \<Rightarrow> (Some e, w2)
         | None \<Rightarrow>
             updateJob J ev jobContainer (cb_newJobData r) (cb_processIn r)
               (snd (setProcessedNow ev (job_id jobContainer) w2)))"

definition processJob ::
  "bool \<Rightarrow> jobs \<Rightarrow> env \<Rightarrow> process_fn \<Rightarrow> job \<Rightarrow> world \<Rightarrow> error option \<times> world" where
  "processJob now J ev processFunction jobSnap w =
     (case serviceJob J ev jobSnap processFunction (tx_begin w) of
        (err, w1) \<Rightarrow>
          (let w2 = (case err of Some e \<Rightarrow> tx_rollback ev w1 | None \<Rightarrow> tx_commit ev w1)
           in (err, emit J (if now then ''processNowCommitted'' else ''processCommitted'') w2)))"

text \<open>
  \<open>getJobProcessor\<close> returns the callback \<^verbatim>\<open>function(err, jobSnap)\<close>; the result is what
  that callback passes on to \<open>callback\<close>. \<^verbatim>\<open>options.pollInterval || 1000\<close> takes the
  default for an absent and for a zero interval alike.
\<close>

definition idle_wait :: "options \<Rightarrow> int" where
  "idle_wait options =
     (case pollInterval options of
        None \<Rightarrow> 1000
      | Some p \<Rightarrow> (if p = 0 then 1000 else p))"

definition getJobProcessor ::
  "bool \<Rightarrow> jobs \<Rightarrow> env \<Rightarrow> process_fn \<Rightarrow> error option \<Rightarrow> job option \<Rightarrow> world \<Rightarrow>
   error option \<times> world" where
  "getJobProcessor now J ev processFunction err jobSnap w =
     (case err of
        Some e \<Rightarrow> (Some e, w)
      | None \<Rightarrow>
          (case jobSnap of
             None \<Rightarrow>
               (if now then (Some could_not_locate_job, w)
                else (None, setTimeout ev (idle_wait (opts J)) (emit J ''drain'' w)))
           | Some js \<Rightarrow> processJob now J ev processFunction js w))"

text \<open>
  One round of the polling loop. \<^verbatim>\<open>setImmediate\<close> only defers the body to the next turn
  of the event loop.
\<close>

definition iterator :: "jobs \<Rightarrow> env \<Rightarrow> process_fn \<Rightarrow> world \<Rightarrow> error option \<times> world" where
  "iterator J ev processFunction w =
     (case nextToProcess ev (emit J ''maybeServiceJob'' w) of
        ((err, jobSnap), w1) \<Rightarrow> getJobProcessor False J ev processFunction err jobSnap w1)"

text \<open>\<^verbatim>\<open>finish(err)\<close> calls \<^verbatim>\<open>done()\<close> with no argument.\<close>

definition finish :: "jobs \<Rightarrow> error option \<Rightarrow> world \<Rightarrow> world" where
  "finish J err w = done_cb None (emit J ''stopProcess'' (releaseClient w))"

text \<open>
  \<open>process\<close> sets the flag and asks for a connection; \<open>process_connected\<close> is its
  inner function \<^verbatim>\<open>connected(err, db, releaseClient)\<close>, which runs the loop.
\<close>

definition process_connected ::
  "nat \<Rightarrow> jobs \<Rightarrow> env \<Rightarrow> process_fn \<Rightarrow> error option \<Rightarrow> world \<Rightarrow> world option" where
  "process_connected rounds J ev processFunction err w =
     (case err of
        Some e \<Rightarrow> Some (done_cb (Some e) w)
      | None \<Rightarrow>
          whilst rounds (continueProcessing J) (iterator J ev processFunction) (finish J) w)"

definition process :: "nat \<Rightarrow> jobs \<Rightarrow> env \<Rightarrow> process_fn \<Rightarrow> world \<Rightarrow> world option" where
  "process rounds J ev processFunction w =
     (case pg_connect ev (w\<lparr>shouldStillProcess := Some True\<rparr>) of
        (err, w1) \<Rightarrow> process_connected rounds J ev processFunction err w1)"

text \<open>
  \<open>processNow\<close>: \<open>gotLock\<close> and \<open>processed\<close> are the callbacks of its inner function
  \<^verbatim>\<open>connected\<close>; \<open>gotData\<close> is the function made by \<open>getJobProcessor\<close>.
\<close>

definition processed :: "job_id \<Rightarrow> error option \<Rightarrow> world \<Rightarrow> world" where
  "processed jobId err w = done_cb err (releaseClient (unlock jobId w))"

definition gotLock ::
  "jobs \<Rightarrow> env \<Rightarrow> job_id \<Rightarrow> process_fn \<Rightarrow> error option \<Rightarrow> world \<Rightarrow> world" where
  "gotLock J ev jobId processFunction err w =
     (case err of
        Some e \<Rightarrow> done_cb (Some e) w
      | None \<Rightarrow>
          (case getDataForJob ev jobId w of
             ((err1, jobSnap), w1) \<Rightarrow>
               (case getJobProcessor True J ev processFunction err1 jobSnap w1 of
                  (err2, w2) \<Rightarrow> processed jobId err2 w2)))"

definition processNow :: "jobs \<Rightarrow> env \<Rightarrow> job_id \<Rightarrow> process_fn \<Rightarrow> world \<Rightarrow> world" where
  "processNow J ev jobId processFunction w =
     (case pg_connect ev w of
        (Some e, w1) \<Rightarrow> done_cb (Some e) w1
      | (None, w1) \<Rightarrow>
          (case obtainLock ev jobId w1 of
             (err, w2) \<Rightarrow> gotLock J ev jobId processFunction err w2))"

text \<open>\<open>precedes a b tr\<close>: \<open>a\<close> happens in \<open>tr\<close> before \<open>b\<close> has happened.\<close>

definition precedes :: "action \<Rightarrow> action \<Rightarrow> action list \<Rightarrow> bool" where
  "precedes a b tr = (a \<in> set (takeWhile (\<lambda>x. x \<noteq> b) tr))"

section \<open>Sample inputs\<close>

definition no_faults :: env where
  "no_faults =
     \<lparr>connect_fault = None, next_fault = (\<lambda>_. None), lock_fault = (\<lambda>_. None),
      getdata_fault = (\<lambda>_. None), stamp_fault = (\<lambda>_. None), write_fault = (\<lambda>_. None),
      commit_fault = None, rollback_fault = None, timer_late = 0\<rparr>"

definition job1 :: job where
  "job1 = \<lparr>job_id = 1, data = ''a'', due_at = Some 0, processed_at = None\<rparr>"

definition job2 :: job where
  "job2 = \<lparr>job_id = 2, data = ''b'', due_at = Some 0, processed_at = None\<rparr>"

definition world0 :: world where
  "world0 =
     \<lparr>shouldStillProcess = None, emitters = 0, store = [job1, job2], tx_saved = None,
      locks = [], clients_out = 0, clock = 5, trace = []\<rparr>"

definition jobsA :: jobs where
  "jobsA = \<lparr>opts = \<lparr>db = ''postgres://a'', pollInterval = None\<rparr>, eventEmitter = 0\<rparr>"

definition jobsB :: jobs where
  "jobsB = \<lparr>opts = \<lparr>db = ''postgres://b'', pollInterval = Some 250\<rparr>, eventEmitter = 1\<rparr>"

definition succeed :: process_fn where
  "succeed i d =
     \<lparr>cb_err = None, cb_newJobData = d @ ''!'', cb_processIn = Ms 100,
      calls_stopProcessing = False\<rparr>"

definition fail :: process_fn where
  "fail i d =
     \<lparr>cb_err = Some (Error ''boom''), cb_newJobData = d, cb_processIn = Null,
      calls_stopProcessing = False\<rparr>"

definition next_fails :: env where
  "next_fails = no_faults\<lparr>next_fault := (\<lambda>_. Some (Error ''connection lost''))\<rparr>"

definition lock_fails :: env where
  "lock_fails = no_faults\<lparr>lock_fault := (\<lambda>_. Some (Error ''lock not available''))\<rparr>"

definition getdata_fails :: env where
  "getdata_fails = no_faults\<lparr>getdata_fault := (\<lambda>_. Some (Error ''query failed''))\<rparr>"

definition stamp_fails :: env where
  "stamp_fails = no_faults\<lparr>stamp_fault := (\<lambda>_. Some (Error ''stamp failed''))\<rparr>"

definition write_fails :: env where
  "write_fails = no_faults\<lparr>write_fault := (\<lambda>_. Some (Error ''write failed''))\<rparr>"

definition commit_fails :: env where
  "commit_fails = no_faults\<lparr>commit_fault := Some (Error ''commit failed'')\<rparr>"

definition jobsC :: jobs where
  "jobsC = \<lparr>opts = \<lparr>db = ''postgres://c'', pollInterval = Some 2147483648\<rparr>, eventEmitter = 2\<rparr>"

definition idle_world :: world where
  "idle_world = world0\<lparr>shouldStillProcess := Some True, store := []\<rparr>"

definition stop_now :: process_fn where
  "stop_now i d = (succeed i d)\<lparr>calls_stopProcessing := True\<rparr>"

definition running_world :: world where
  "running_world = world0\<lparr>shouldStillProcess := Some True, clients_out := 1\<rparr>"

section \<open>Unfolding the model\<close>

lemmas model_defs =
  log_def pg_connect_def releaseClient_def setTimeout_def tx_begin_def restore_def
  tx_commit_def tx_rollback_def write_job_def setProcessedNow_def nextToProcess_def
  obtainLock_def unlock_def getDataForJob_def emit_def done_cb_def updateJob_def
  stopProcessing_def continueProcessing_def serviceJob_def processJob_def
  getJobProcessor_def iterator_def finish_def processed_def gotLock_def processNow_def
  process_connected_def process_def module_exports_def

lemmas fault_defs =
  next_fails_def lock_fails_def getdata_fails_def stamp_fails_def write_fails_def
  commit_fails_def

lemmas sample_defs =
  no_faults_def job1_def job2_def world0_def jobsA_def jobsB_def succeed_def fail_def
  jobsC_def idle_world_def stop_now_def running_world_def

lemma iterator_keeps_flag:
  "\<forall>i d. \<not> calls_stopProcessing (g i d) \<Longrightarrow>
     shouldStillProcess (snd (iterator J ev g w)) = shouldStillProcess w"
  by (auto simp: model_defs Let_def split: option.splits prod.splits sum.splits)

lemma whilst_keeps_flag:
  "\<forall>i d. \<not> calls_stopProcessing (g i d) \<Longrightarrow>
   whilst n (continueProcessing J) (iterator J ev g) (finish J) w = Some w' \<Longrightarrow>
   shouldStillProcess w' = shouldStillProcess w"
proof (induction n arbitrary: w)
  case 0
  then show ?case by simp
next
  case (Suc n)
  show ?case
  proof (cases "continueProcessing J w = Some True")
    case False
    with Suc.prems(2) show ?thesis
      by (auto simp: finish_def done_cb_def emit_def releaseClient_def log_def)
  next
    case True
    obtain err w1 where it: "iterator J ev g w = (err, w1)" by (cases "iterator J ev g w")
    have keep: "shouldStillProcess w1 = shouldStillProcess w"
      using iterator_keeps_flag [OF Suc.prems(1), of J ev w] it by simp
    show ?thesis
    proof (cases err)
      case None
      with True it Suc.prems(2) have "whilst n (continueProcessing J) (iterator J ev g) (finish J) w1 = Some w'"
        by simp
      from Suc.IH [OF Suc.prems(1) this] keep show ?thesis by simp
    next
      case (Some e)
      with True it Suc.prems(2) have "w' = finish J (Some e) w1" by simp
      with keep show ?thesis
        by (simp add: finish_def done_cb_def emit_def releaseClient_def log_def)
    qed
  qed
qed

lemma lookup_rewrite:
  "(\<And>j. job_id (f j) = job_id j) \<Longrightarrow> lookup i (rewrite i f js) = map_option f (lookup i js)"
  by (induction js) (auto simp: lookup_def rewrite_def)

lemma lookup_rewrite_other:
  "(\<And>j. job_id (f j) = job_id j) \<Longrightarrow> k \<noteq> i \<Longrightarrow> lookup k (rewrite i f js) = lookup k js"
  by (induction js) (auto simp: lookup_def rewrite_def)

lemma processJob_trace:
  "trace (snd (processJob now J ev f js w)) =
     trace w @ [TxBegin, UserFn (job_id js)] @
     (case cb_err (f (job_id js) (data js)) of
        Some e \<Rightarrow> []
      | None \<Rightarrow>
          SetProcessedNow (job_id js) #
          Write (Some (job_id js))
            (if cb_processIn (f (job_id js) (data js)) = Undefined then Null
             else cb_processIn (f (job_id js) (data js)))
            (cb_newJobData (f (job_id js) (data js))) #
          (case write_fault ev (Some (job_id js)) of
             None \<Rightarrow> [Emit (eventEmitter J) ''jobUpdated'']
           | Some e \<Rightarrow> [])) @
     [case fst (processJob now J ev f js w) of
        None \<Rightarrow> TxCommit (commit_fault ev)
      | Some e \<Rightarrow> TxRollback (rollback_fault ev),
      Emit (eventEmitter J) (if now then ''processNowCommitted'' else ''processCommitted'')]"
  by (auto simp: model_defs Let_def split: option.splits prod.splits sum.splits if_splits)



lemma processJob_with_stop:
  assumes "calls_stopProcessing (f (job_id js) (data js))"
  shows "processJob now J ev f js w =
     (fst (processJob now J ev (\<lambda>i d. (f i d)\<lparr>calls_stopProcessing := False\<rparr>) js w),
      (snd (processJob now J ev (\<lambda>i d. (f i d)\<lparr>calls_stopProcessing := False\<rparr>) js w))
        \<lparr>shouldStillProcess := Some False\<rparr>)"
  using assms
  by (cases "cb_err (f (job_id js) (data js))"; cases "write_fault ev (Some (job_id js))";
      cases "stamp_fault ev (job_id js)"; cases "commit_fault ev")
     (simp_all add: model_defs Let_def)

section \<open>The transaction around one job\<close>

text \<open>
  C1, as stated, fails when the Store does not carry out what it is asked for, although
  the processing function has called back with a null error. When the commit fails,
  \<open>txDone\<close> takes no notice: the cycle reports no error and emits \<open>processCommitted\<close>,
  and the table is as before. When the stamp fails, the cycle commits the new data with
  \<open>processed_at\<close> not stamped. When the write fails, the transaction is rolled back.
\<close>

theorem commit_only_on_success_counterexample:
  "cb_err (succeed (job_id job1) (data job1)) = None
   \<and> processJob False jobsA commit_fails succeed job1 world0 =
       (None, world0\<lparr>trace := [TxBegin, UserFn 1, SetProcessedNow 1,
                                Write (Some 1) (Ms 100) ''a!'', Emit 0 ''jobUpdated'',
                                TxCommit (Some (Error ''commit failed'')),
                                Emit 0 ''processCommitted'']\<rparr>)
   \<and> fst (processJob False jobsA stamp_fails succeed job1 world0) = None
   \<and> lookup 1 (store (snd (processJob False jobsA stamp_fails succeed job1 world0))) =
       Some \<lparr>job_id = 1, data = ''a!'', due_at = Some 105, processed_at = None\<rparr>
   \<and> processJob False jobsA write_fails succeed job1 world0 =
       (Some (Error ''write failed''),
        world0\<lparr>trace := [TxBegin, UserFn 1, SetProcessedNow 1,
                          Write (Some 1) (Ms 100) ''a!'', TxRollback None,
                          Emit 0 ''processCommitted'']\<rparr>)"
  by (simp add: model_defs sample_defs fault_defs due_from_def rewrite_def lookup_def Let_def)

text \<open>
  C1, amended. One service cycle is \<open>processJob\<close>, for the polling loop (\<open>now\<close> false)
  and for \<open>processNow\<close> (\<open>now\<close> true) alike, run on a job that is in the table. If the
  processing function calls its completion callback with a null error, and the Store
  carries out the stamp, the write and the commit it is asked for, then afterwards the
  stored job has \<open>processed_at\<close> equal to the time of the cycle, \<open>data\<close> equal to the
  \<open>newJobData\<close> argument and \<open>due_at\<close> derived from the delay argument (null for an
  omitted or null delay, so the job is inactive), every other job is as before, and the
  transaction was committed. If the completion callback is called with an error (an
  \<^verbatim>\<open>Error\<close> object, truthy for the test \<^verbatim>\<open>if (err)\<close>), the transaction is rolled back, the
  error is passed on, and the whole table is as it was before the cycle.
\<close>

theorem commit_only_on_success:
  assumes cyc: "processJob now J ev f snap w = (err, w')"
      and rep: "f (job_id snap) (data snap) = r"
      and row: "lookup (job_id snap) (store w) = Some j0"
  shows "(cb_err r = None \<and> stamp_fault ev (job_id snap) = None
            \<and> write_fault ev (Some (job_id snap)) = None \<and> commit_fault ev = None \<longrightarrow>
          err = None
          \<and> lookup (job_id snap) (store w') =
              Some (j0\<lparr>data := cb_newJobData r,
                       due_at := (case cb_processIn r of Ms n \<Rightarrow> Some (clock w + n)
                                  | Null \<Rightarrow> None | Undefined \<Rightarrow> None),
                       processed_at := Some (clock w)\<rparr>)
          \<and> (\<forall>k. k \<noteq> job_id snap \<longrightarrow> lookup k (store w') = lookup k (store w))
          \<and> tx_saved w' = None
          \<and> trace w' = trace w @
              [TxBegin, UserFn (job_id snap), SetProcessedNow (job_id snap),
               Write (Some (job_id snap))
                 (if cb_processIn r = Undefined then Null else cb_processIn r) (cb_newJobData r),
               Emit (eventEmitter J) ''jobUpdated'', TxCommit None,
               Emit (eventEmitter J) (if now then ''processNowCommitted'' else ''processCommitted'')])
       \<and> (\<forall>e. cb_err r = Some e \<longrightarrow>
            err = Some e \<and> store w' = store w \<and> tx_saved w' = None
            \<and> trace w' = trace w @
                [TxBegin, UserFn (job_id snap), TxRollback (rollback_fault ev),
                 Emit (eventEmitter J) (if now then ''processNowCommitted'' else ''processCommitted'')])"
  using assms
  by (auto simp: model_defs lookup_rewrite lookup_rewrite_other Let_def due_from_def split: option.splits prod.splits sum.splits if_splits delay.splits)

theorem commit_only_on_success_witness:
  "lookup (job_id job1) (store world0) = Some job1
   \<and> cb_err (succeed (job_id job1) (data job1)) = None
   \<and> stamp_fault no_faults (job_id job1) = None
   \<and> write_fault no_faults (Some (job_id job1)) = None
   \<and> commit_fault no_faults = None
   \<and> lookup 1 (store (snd (processJob False jobsA no_faults succeed job1 world0)))
       = Some \<lparr>job_id = 1, data = ''a!'', due_at = Some 105, processed_at = Some 5\<rparr>
   \<and> cb_err (fail (job_id job1) (data job1)) = Some (Error ''boom'')
   \<and> fst (processJob True jobsA no_faults fail job1 world0) = Some (Error ''boom'')
   \<and> store (snd (processJob True jobsA no_faults fail job1 world0)) = store world0"
proof -
  have row: "lookup (job_id job1) (store world0) = Some job1"
    by (simp add: lookup_def sample_defs)
  have ok: "cb_err (succeed (job_id job1) (data job1)) = None
     \<and> stamp_fault no_faults (job_id job1) = None
     \<and> write_fault no_faults (Some (job_id job1)) = None \<and> commit_fault no_faults = None"
    by (simp add: sample_defs)
  have bad: "cb_err (fail (job_id job1) (data job1)) = Some (Error ''boom'')"
    by (simp add: sample_defs)
  note s = commit_only_on_success [OF surjective_pairing refl row, where now = False and J = jobsA and ev = no_faults and f = succeed]
  note f = commit_only_on_success [OF surjective_pairing refl row, where now = True and J = jobsA and ev = no_faults and f = fail]
  from s ok have "lookup 1 (store (snd (processJob False jobsA no_faults succeed job1 world0)))
       = Some \<lparr>job_id = 1, data = ''a!'', due_at = Some 105, processed_at = Some 5\<rparr>"
    by (simp add: sample_defs)
  moreover from f bad have "fst (processJob True jobsA no_faults fail job1 world0) = Some (Error ''boom'')
    \<and> store (snd (processJob True jobsA no_faults fail job1 world0)) = store world0"
    by simp
  ultimately show ?thesis using row ok bad by simp
qed

section \<open>Notifications of a successful cycle\<close>

text \<open>
  C7, as stated, fails: \<open>jobUpdated\<close> is emitted by \<open>updateJob\<close> when the write has
  succeeded, which is before \<open>processJob\<close> asks for the commit. On the sample job the
  event precedes the commit in the trace.
\<close>

theorem jobUpdated_before_commit_counterexample:
  "fst (processJob False jobsA no_faults succeed job1 world0) = None
   \<and> precedes (Emit (eventEmitter jobsA) ''jobUpdated'') (TxCommit None)
        (trace (snd (processJob False jobsA no_faults succeed job1 world0)))"
  by (simp add: model_defs sample_defs precedes_def Let_def due_from_def rewrite_def)

text \<open>
  C7, amended. In every service cycle that ends without error, \<open>jobUpdated\<close> fires
  after the Store's write has succeeded and before the commit is issued, and the commit
  notification (\<open>processCommitted\<close> for the polling loop, \<open>processNowCommitted\<close> for
  \<open>processNow\<close>) fires only after the commit has completed.
\<close>

theorem notifications_around_commit:
  assumes cyc: "processJob now J ev f snap w = (None, w')"
      and rep: "f (job_id snap) (data snap) = r"
  shows "trace w' = trace w @
           [TxBegin, UserFn (job_id snap), SetProcessedNow (job_id snap),
            Write (Some (job_id snap))
              (if cb_processIn r = Undefined then Null else cb_processIn r) (cb_newJobData r),
            Emit (eventEmitter J) ''jobUpdated'',
            TxCommit (commit_fault ev),
            Emit (eventEmitter J) (if now then ''processNowCommitted'' else ''processCommitted'')]
     \<and> precedes
          (Write (Some (job_id snap))
             (if cb_processIn r = Undefined then Null else cb_processIn r) (cb_newJobData r))
          (Emit (eventEmitter J) ''jobUpdated'')
          (drop (length (trace w)) (trace w'))
     \<and> precedes (Emit (eventEmitter J) ''jobUpdated'') (TxCommit (commit_fault ev))
          (drop (length (trace w)) (trace w'))
     \<and> precedes (TxCommit (commit_fault ev))
          (Emit (eventEmitter J) (if now then ''processNowCommitted'' else ''processCommitted''))
          (drop (length (trace w)) (trace w'))"
proof -
  from cyc rep have tr: "trace w' = trace w @
           [TxBegin, UserFn (job_id snap), SetProcessedNow (job_id snap),
            Write (Some (job_id snap))
              (if cb_processIn r = Undefined then Null else cb_processIn r) (cb_newJobData r),
            Emit (eventEmitter J) ''jobUpdated'',
            TxCommit (commit_fault ev),
            Emit (eventEmitter J) (if now then ''processNowCommitted'' else ''processCommitted'')]"
    by (auto simp: model_defs Let_def split: option.splits prod.splits sum.splits if_splits)
  then show ?thesis by (simp add: precedes_def)
qed

theorem notifications_around_commit_witness:
  "processJob True jobsA no_faults succeed job1 world0
     = (None, snd (processJob True jobsA no_faults succeed job1 world0))
   \<and> precedes (TxCommit (commit_fault no_faults))
        (Emit (eventEmitter jobsA) ''processNowCommitted'')
        (drop (length (trace world0))
           (trace (snd (processJob True jobsA no_faults succeed job1 world0))))"
proof -
  have h: "processJob True jobsA no_faults succeed job1 world0
     = (None, snd (processJob True jobsA no_faults succeed job1 world0))"
    by (simp add: model_defs sample_defs Let_def prod_eq_iff)
  from notifications_around_commit [OF h refl, simplified if_True]
  have "precedes (TxCommit (commit_fault no_faults))
        (Emit (eventEmitter jobsA) ''processNowCommitted'')
        (drop (length (trace world0))
           (trace (snd (processJob True jobsA no_faults succeed job1 world0))))"
    by blast
  with h show ?thesis by (rule conjI)
qed

section \<open>Errors of the Store\<close>




section \<open>A job that cannot be found\<close>

text \<open>
  C5, as stated, fails for a job that cannot be locked: \<open>processNow\<close> passes the error of
  \<open>obtainLock\<close> on as it is, and that error is the Store's, not the controller's
  \<^verbatim>\<open>'Could not locate job'\<close>.
\<close>

theorem lock_error_passed_on_counterexample:
  "lock_fault lock_fails 2 = Some (Error ''lock not available'')
   \<and> last (trace (processNow jobsB lock_fails 2 succeed world0))
       = Done (Some (Error ''lock not available''))
   \<and> last (trace (processNow jobsB lock_fails 2 succeed world0)) \<noteq> Done (Some could_not_locate_job)"
  by (simp add: model_defs sample_defs fault_defs could_not_locate_job_def Let_def)

text \<open>
  C5, amended. Once connected: when the lock on \<open>jobId\<close> cannot be obtained,
  \<open>processNow\<close> delivers the Store's lock error to its callback; when the lock is
  obtained and the Store has no snapshot for \<open>jobId\<close>, it delivers the error
  \<^verbatim>\<open>'Could not locate job'\<close>. In both cases nothing but these requests happens: no
  \<open>jobUpdated\<close> is emitted and the table is unchanged. The polling loop takes an empty
  result of \<open>nextToProcess\<close> as normal: it emits \<open>drain\<close>, sets its timer and ends the
  round without error.
\<close>

theorem processNow_job_not_found:
  assumes conn: "connect_fault ev = None"
  shows "(\<forall>e. lock_fault ev i = Some e \<longrightarrow>
            trace (processNow J ev i f w) = trace w @ [Connect, ObtainLock i, Done (Some e)]
            \<and> store (processNow J ev i f w) = store w)
     \<and> (lock_fault ev i = None \<and> getdata_fault ev i = None \<and> lookup i (store w) = None \<longrightarrow>
            trace (processNow J ev i f w) = trace w @
              [Connect, ObtainLock i, GetData i, Unlock i, ReleaseClient,
               Done (Some could_not_locate_job)]
            \<and> store (processNow J ev i f w) = store w)
     \<and> (next_fault ev (clock w) = None
          \<and> find (\<lambda>j. is_due (clock w) j \<and> job_id j \<notin> set (locks w)) (store w) = None \<longrightarrow>
            fst (iterator J ev f w) = None
            \<and> trace (snd (iterator J ev f w)) = trace w @
                [Emit (eventEmitter J) ''maybeServiceJob'', QueryNext (clock w),
                 Emit (eventEmitter J) ''drain'', SetTimeout (idle_wait (opts J))])"
proof -
  have locked: "trace (processNow J ev i f w) = trace w @ [Connect, ObtainLock i, Done (Some e)]
            \<and> store (processNow J ev i f w) = store w" if "lock_fault ev i = Some e" for e
    using conn that
    by (simp add: processNow_def gotLock_def pg_connect_def obtainLock_def done_cb_def log_def Let_def)
  have missing: "trace (processNow J ev i f w) = trace w @
              [Connect, ObtainLock i, GetData i, Unlock i, ReleaseClient,
               Done (Some could_not_locate_job)]
            \<and> store (processNow J ev i f w) = store w"
    if "lock_fault ev i = None" "getdata_fault ev i = None" "lookup i (store w) = None"
    using conn that
    by (simp add: processNow_def gotLock_def pg_connect_def obtainLock_def getDataForJob_def
          getJobProcessor_def processed_def unlock_def releaseClient_def done_cb_def log_def Let_def)
  have empty: "fst (iterator J ev f w) = None
            \<and> trace (snd (iterator J ev f w)) = trace w @
                [Emit (eventEmitter J) ''maybeServiceJob'', QueryNext (clock w),
                 Emit (eventEmitter J) ''drain'', SetTimeout (idle_wait (opts J))]"
    if "next_fault ev (clock w) = None"
       "find (\<lambda>j. is_due (clock w) j \<and> job_id j \<notin> set (locks w)) (store w) = None"
    using that
    by (simp add: iterator_def nextToProcess_def getJobProcessor_def setTimeout_def emit_def
          log_def Let_def)
  from locked missing empty show ?thesis by blast
qed

theorem processNow_job_not_found_witness:
  "connect_fault lock_fails = None \<and> lock_fault lock_fails 2 = Some (Error ''lock not available'')
   \<and> trace (processNow jobsB lock_fails 2 succeed world0)
       = trace world0 @ [Connect, ObtainLock 2, Done (Some (Error ''lock not available''))]
   \<and> connect_fault no_faults = None \<and> lock_fault no_faults 7 = None
   \<and> getdata_fault no_faults 7 = None \<and> lookup 7 (store world0) = None
   \<and> trace (processNow jobsB no_faults 7 succeed world0)
       = trace world0 @ [Connect, ObtainLock 7, GetData 7, Unlock 7, ReleaseClient,
                         Done (Some could_not_locate_job)]
   \<and> next_fault no_faults (clock idle_world) = None
   \<and> find (\<lambda>j. is_due (clock idle_world) j \<and> job_id j \<notin> set (locks idle_world)) (store idle_world) = None
   \<and> fst (iterator jobsB no_faults succeed idle_world) = None"
proof -
  have c1: "connect_fault lock_fails = None"
    and l1: "lock_fault lock_fails 2 = Some (Error ''lock not available'')"
    and c2: "connect_fault no_faults = None"
    and l2: "lock_fault no_faults 7 = None"
    and g2: "getdata_fault no_faults 7 = None"
    and m2: "lookup 7 (store world0) = None"
    and n3: "next_fault no_faults (clock idle_world) = None"
    and e3: "find (\<lambda>j. is_due (clock idle_world) j \<and> job_id j \<notin> set (locks idle_world)) (store idle_world) = None"
    by (simp_all add: sample_defs fault_defs lookup_def)
  from processNow_job_not_found [OF c1, of 2 jobsB succeed world0] l1
  have r1: "trace (processNow jobsB lock_fails 2 succeed world0)
       = trace world0 @ [Connect, ObtainLock 2, Done (Some (Error ''lock not available''))]"
    by blast
  from processNow_job_not_found [OF c2, of 7 jobsB succeed world0] l2 g2 m2
  have r2: "trace (processNow jobsB no_faults 7 succeed world0)
       = trace world0 @ [Connect, ObtainLock 7, GetData 7, Unlock 7, ReleaseClient,
                         Done (Some could_not_locate_job)]"
    by blast
  from processNow_job_not_found [OF c2, of 7 jobsB succeed idle_world] n3 e3
  have r3: "fst (iterator jobsB no_faults succeed idle_world) = None"
    by blast
  from c1 l1 r1 c2 l2 g2 m2 r2 n3 e3 r3 show ?thesis by (intro conjI)
qed

section \<open>Releasing the lock and the client in \<open>processNow\<close>\<close>

text \<open>
  C3 says that every exit path of \<open>processNow\<close> returns the connection before the
  completion callback fires, the failure to obtain the lock included. \<open>gotLock\<close> answers
  a lock error with \<^verbatim>\<open>done(err)\<close> at once: the client checked out by \<^verbatim>\<open>pg.connect\<close> is
  still out when \<open>done\<close> runs, and stays out. The path through \<open>processed\<close>, taken
  here for a job that does not exist, unlocks and releases before \<open>done\<close>.
\<close>

theorem lock_failure_keeps_client:
  "trace (processNow jobsA lock_fails 1 succeed world0) =
     [Connect, ObtainLock 1, Done (Some (Error ''lock not available''))]
   \<and> clients_out world0 = 0
   \<and> clients_out (processNow jobsA lock_fails 1 succeed world0) = 1
   \<and> trace (processNow jobsA no_faults 7 succeed world0) =
       [Connect, ObtainLock 7, GetData 7, Unlock 7, ReleaseClient,
        Done (Some could_not_locate_job)]
   \<and> clients_out (processNow jobsA no_faults 7 succeed world0) = 0"
  by (simp add: model_defs sample_defs fault_defs lookup_def Let_def)

section \<open>The idle poll\<close>




section \<open>How the polling loop ends\<close>

text \<open>
  C2 says that an error reported by the processing function for one job does not end the
  polling loop. In the code \<open>txDone\<close> passes that error to the callback of the loop's
  round, and \<^verbatim>\<open>async.whilst\<close> ends on it. With two due jobs and a processing function
  that reports an error, \<open>process\<close> ends after the first job, whatever the number of
  rounds it is allowed: the client is released, \<open>stopProcess\<close> is emitted and \<open>done\<close>
  is called, while the flag is still true and both jobs are still due; the second job is
  never handed to the processing function.
\<close>

theorem processing_error_ends_polling:
  "map_option trace (process (Suc n) jobsA no_faults fail world0) =
     Some [Connect, Emit 0 ''maybeServiceJob'', QueryNext 5, TxBegin, UserFn 1, TxRollback None,
           Emit 0 ''processCommitted'', ReleaseClient, Emit 0 ''stopProcess'', Done None]
   \<and> map_option shouldStillProcess (process (Suc n) jobsA no_faults fail world0) = Some (Some True)
   \<and> map_option (\<lambda>w. filter (is_due (clock w)) (store w))
        (process (Suc n) jobsA no_faults fail world0) = Some [job1, job2]"
  by (simp add: model_defs sample_defs is_due_def Let_def)

text \<open>
  C4 says that \<open>done\<close> receives the error that ended the loop. \<open>finish(err)\<close> releases
  the client and emits \<open>stopProcess\<close>, but calls \<^verbatim>\<open>done()\<close> with no argument. When the
  query for the next job fails in the first round, that round reports the error and the
  run ends with \<open>Done None\<close>.
\<close>

theorem loop_error_not_passed_to_done:
  "map_option trace (process (Suc n) jobsA next_fails succeed world0) =
     Some [Connect, Emit 0 ''maybeServiceJob'', QueryNext 5, ReleaseClient,
           Emit 0 ''stopProcess'', Done None]
   \<and> fst (iterator jobsA next_fails succeed
           (snd (pg_connect next_fails (world0\<lparr>shouldStillProcess := Some True\<rparr>))))
       = Some (Error ''connection lost'')"
  by (simp add: model_defs sample_defs fault_defs is_due_def Let_def)

section \<open>Stopping\<close>

text \<open>
  C9. \<open>stopProcessing\<close> only sets the flag to false. When it is called while a job of
  the polling loop is being processed, the cycle runs exactly as it would have without the
  call (same outcome, same world but for the flag) and ends with its commit or rollback
  and \<open>processCommitted\<close>; the loop then ends at its next test of the flag, and
  \<open>ReleaseClient\<close>, \<open>stopProcess\<close> and \<open>done\<close> come after the end of that cycle.
\<close>

theorem stop_is_not_preemptive:
  assumes running: "continueProcessing J w = Some True"
      and claimed: "nextToProcess ev (emit J ''maybeServiceJob'' w) = ((None, Some js), w1)"
      and stop: "calls_stopProcessing (f (job_id js) (data js))"
      and cycle: "processJob False J ev f js w1 = (err, w2)"
      and quiet: "processJob False J ev (\<lambda>i d. (f i d)\<lparr>calls_stopProcessing := False\<rparr>) js w1
                    = (err0, w0)"
  shows "stopProcessing J w = w\<lparr>shouldStillProcess := Some False\<rparr>
     \<and> err = err0 \<and> w2 = w0\<lparr>shouldStillProcess := Some False\<rparr>
     \<and> (\<exists>mid. trace w2 = trace w1 @ [TxBegin, UserFn (job_id js)] @ mid @
           [case err of None \<Rightarrow> TxCommit (commit_fault ev)
                      | Some e \<Rightarrow> TxRollback (rollback_fault ev),
            Emit (eventEmitter J) ''processCommitted''])
     \<and> whilst (Suc (Suc n)) (continueProcessing J) (iterator J ev f) (finish J) w
          = Some (finish J err w2)
     \<and> trace (finish J err w2) = trace w2 @
          [ReleaseClient, Emit (eventEmitter J) ''stopProcess'', Done None]"
proof -
  have only_flag: "stopProcessing J w = w\<lparr>shouldStillProcess := Some False\<rparr>"
    by (simp add: stopProcessing_def)
  from processJob_with_stop [where f = f, OF stop, of False J ev w1] cycle quiet
  have same: "err = err0 \<and> w2 = w0\<lparr>shouldStillProcess := Some False\<rparr>"
    by simp
  from processJob_trace [of False J ev f js w1] cycle
  have shape: "\<exists>mid. trace w2 = trace w1 @ [TxBegin, UserFn (job_id js)] @ mid @
           [case err of None \<Rightarrow> TxCommit (commit_fault ev)
                      | Some e \<Rightarrow> TxRollback (rollback_fault ev),
            Emit (eventEmitter J) ''processCommitted'']"
    by auto
  from same have off: "continueProcessing J w2 = Some False"
    by (simp add: continueProcessing_def)
  from claimed cycle have it: "iterator J ev f w = (err, w2)"
    by (simp add: iterator_def getJobProcessor_def)
  from running it off have loop: "whilst (Suc (Suc n)) (continueProcessing J) (iterator J ev f) (finish J) w
          = Some (finish J err w2)"
    by (cases err) (simp_all add: finish_def)
  have tr: "trace (finish J err w2) = trace w2 @
          [ReleaseClient, Emit (eventEmitter J) ''stopProcess'', Done None]"
    by (simp add: finish_def done_cb_def emit_def releaseClient_def log_def)
  from only_flag same shape loop tr show ?thesis by blast
qed

theorem stop_is_not_preemptive_witness:
  "continueProcessing jobsA running_world = Some True
   \<and> fst (nextToProcess no_faults (emit jobsA ''maybeServiceJob'' running_world)) = (None, Some job1)
   \<and> calls_stopProcessing (stop_now (job_id job1) (data job1))
   \<and> map_option trace
        (whilst (Suc (Suc 0)) (continueProcessing jobsA) (iterator jobsA no_faults stop_now)
           (finish jobsA) running_world)
       = Some [Emit 0 ''maybeServiceJob'', QueryNext 5, TxBegin, UserFn 1, SetProcessedNow 1,
               Write (Some 1) (Ms 100) ''a!'', Emit 0 ''jobUpdated'', TxCommit None,
               Emit 0 ''processCommitted'',
               ReleaseClient, Emit 0 ''stopProcess'', Done None]"
proof -
  let ?w1 = "snd (nextToProcess no_faults (emit jobsA ''maybeServiceJob'' running_world))"
  have run: "continueProcessing jobsA running_world = Some True"
    by (simp add: continueProcessing_def running_world_def world0_def)
  have nx: "fst (nextToProcess no_faults (emit jobsA ''maybeServiceJob'' running_world)) = (None, Some job1)"
    by (simp add: nextToProcess_def emit_def log_def sample_defs running_world_def is_due_def Let_def)
  then have claimed: "nextToProcess no_faults (emit jobsA ''maybeServiceJob'' running_world)
      = ((None, Some job1), ?w1)"
    by (metis prod.collapse)
  have stop: "calls_stopProcessing (stop_now (job_id job1) (data job1))"
    by (simp add: stop_now_def)
  note t = stop_is_not_preemptive [where f = stop_now and n = 0, OF run claimed stop surjective_pairing surjective_pairing]
  have tr: "trace (finish jobsA (fst (processJob False jobsA no_faults stop_now job1 ?w1))
               (snd (processJob False jobsA no_faults stop_now job1 ?w1)))
       = [Emit 0 ''maybeServiceJob'', QueryNext 5, TxBegin, UserFn 1, SetProcessedNow 1,
               Write (Some 1) (Ms 100) ''a!'', Emit 0 ''jobUpdated'', TxCommit None,
               Emit 0 ''processCommitted'',
               ReleaseClient, Emit 0 ''stopProcess'', Done None]"
    by (simp add: model_defs sample_defs running_world_def stop_now_def Let_def)
  from t have "whilst (Suc (Suc 0)) (continueProcessing jobsA) (iterator jobsA no_faults stop_now)
           (finish jobsA) running_world
      = Some (finish jobsA (fst (processJob False jobsA no_faults stop_now job1 ?w1))
               (snd (processJob False jobsA no_faults stop_now job1 ?w1)))"
    by blast
  with tr have "map_option trace
        (whilst (Suc (Suc 0)) (continueProcessing jobsA) (iterator jobsA no_faults stop_now)
           (finish jobsA) running_world)
       = Some [Emit 0 ''maybeServiceJob'', QueryNext 5, TxBegin, UserFn 1, SetProcessedNow 1,
               Write (Some 1) (Ms 100) ''a!'', Emit 0 ''jobUpdated'', TxCommit None,
               Emit 0 ''processCommitted'',
               ReleaseClient, Emit 0 ''stopProcess'', Done None]"
    by simp
  with run nx stop show ?thesis by blast
qed

section \<open>The module-level flag\<close>

text \<open>
  C10. The should-continue flag is one variable of the module, shared by every controller
  built in the same process. Let A and B be the instances returned by two calls of the
  exported factory; they are different objects, each with its own emitter. After
  \<open>A.stopProcessing()\<close>, \<open>B.continueProcessing()\<close> returns false, and B's polling loop,
  at its next test of the flag, ends through \<open>finish\<close>. After \<open>B.stopProcessing()\<close>, a
  call of \<open>A.process\<close> has set the flag to true for B by the time A's connection callback
  runs, and the flag is still true for B when that call of \<open>A.process\<close> has ended, provided
  the processing function did not call \<open>stopProcessing\<close> in between.
\<close>

theorem shared_flag_across_instances:
  assumes A: "module_exports oa w0 = (A, w1)" and B: "module_exports ob w1 = (B, w2)"
  shows "eventEmitter A \<noteq> eventEmitter B
     \<and> continueProcessing B (stopProcessing A w) = Some False
     \<and> whilst (Suc n) (continueProcessing B) (iterator B ev f) (finish B) (stopProcessing A w)
         = Some (finish B None (stopProcessing A w))
     \<and> (\<exists>err wc. process m A ev g (stopProcessing B w) = process_connected m A ev g err wc
           \<and> continueProcessing B wc = Some True)
     \<and> (\<forall>w'. (\<forall>i d. \<not> calls_stopProcessing (g i d)) \<longrightarrow>
           process m A ev g (stopProcessing B w) = Some w' \<longrightarrow>
           continueProcessing B w' = Some True)"
proof -
  have distinct: "eventEmitter A \<noteq> eventEmitter B"
    using A B by (auto simp: module_exports_def)
  have stopped: "continueProcessing B (stopProcessing A w) = Some False"
    by (simp add: continueProcessing_def stopProcessing_def)
  have halts: "whilst (Suc n) (continueProcessing B) (iterator B ev f) (finish B) (stopProcessing A w)
         = Some (finish B None (stopProcessing A w))"
    using stopped by simp
  have started: "\<exists>err wc. process m A ev g (stopProcessing B w) = process_connected m A ev g err wc
           \<and> continueProcessing B wc = Some True"
  proof -
    let ?p = "pg_connect ev ((stopProcessing B w)\<lparr>shouldStillProcess := Some True\<rparr>)"
    have "process m A ev g (stopProcessing B w) = process_connected m A ev g (fst ?p) (snd ?p)"
      by (simp add: process_def split: prod.splits)
    moreover have "continueProcessing B (snd ?p) = Some True"
      by (simp add: pg_connect_def log_def continueProcessing_def Let_def split: option.splits)
    ultimately show ?thesis by blast
  qed
  have after: "continueProcessing B w' = Some True"
    if quiet: "\<forall>i d. \<not> calls_stopProcessing (g i d)"
      and run: "process m A ev g (stopProcessing B w) = Some w'" for w'
  proof (cases "connect_fault ev")
    case (Some e)
    with run show ?thesis
      by (auto simp: process_def process_connected_def pg_connect_def log_def done_cb_def
            continueProcessing_def Let_def)
  next
    case None
    let ?wc = "snd (pg_connect ev ((stopProcessing B w)\<lparr>shouldStillProcess := Some True\<rparr>))"
    from None run have "whilst m (continueProcessing A) (iterator A ev g) (finish A) ?wc = Some w'"
      by (simp add: process_def process_connected_def pg_connect_def Let_def)
    from whilst_keeps_flag [OF quiet this] None show ?thesis
      by (simp add: pg_connect_def log_def continueProcessing_def Let_def)
  qed
  from distinct stopped halts started after show ?thesis by blast
qed

theorem shared_flag_across_instances_witness:
  "module_exports (opts jobsA) world0 = (jobsA, world0\<lparr>emitters := 1\<rparr>)
   \<and> module_exports (opts jobsB) (world0\<lparr>emitters := 1\<rparr>) = (jobsB, world0\<lparr>emitters := 2\<rparr>)
   \<and> (\<forall>i d. \<not> calls_stopProcessing (fail i d))
   \<and> process 2 jobsA no_faults fail (stopProcessing jobsB world0) \<noteq> None
   \<and> continueProcessing jobsB (the (process 2 jobsA no_faults fail (stopProcessing jobsB world0))) = Some True
   \<and> continueProcessing jobsB (stopProcessing jobsA world0) = Some False"
proof -
  have a: "module_exports (opts jobsA) world0 = (jobsA, world0\<lparr>emitters := 1\<rparr>)"
    by (simp add: module_exports_def sample_defs)
  have b: "module_exports (opts jobsB) (world0\<lparr>emitters := 1\<rparr>) = (jobsB, world0\<lparr>emitters := 2\<rparr>)"
    by (simp add: module_exports_def sample_defs)
  have q: "\<forall>i d. \<not> calls_stopProcessing (fail i d)"
    by (simp add: fail_def)
  have r: "process 2 jobsA no_faults fail (stopProcessing jobsB world0) \<noteq> None"
    by (simp add: model_defs sample_defs Let_def is_due_def numeral_2_eq_2)
  from shared_flag_across_instances [OF a b, of world0 0 no_faults succeed 2 fail] q r a b
  show ?thesis by auto
qed


end
